theory Spec2Isabelle
  imports Main "HOL-Library.Word"
begin

section \<open>Host values\<close>

text \<open>
  A DOM element is known to the components only by its identity (\<open>===\<close>, \<open>indexOf\<close>),
  so an element is a number. The two errors the code can raise are the \<open>Error\<close> thrown
  by \<open>useMenuContext\<close>, with its message, and the \<open>TypeError\<close> the JavaScript runtime
  raises when \<open>undefined\<close> is spread or a property of \<open>undefined\<close> is read.
\<close>

type_synonym element = nat

datatype js_error = TypeError | Error string

section \<open>The dropdown menu (TrackCard.tsx, lines 24-252)\<close>

subsection \<open>Data\<close>

text \<open>\<open>enum Focus\<close> (lines 39-44); the argument of \<open>focus\<close> is \<open>Focus | number\<close>.\<close>

datatype Focus = First | Previous | Next | Last

datatype focus_arg = Named Focus | Index int

text \<open>\<open>enum MenuState\<close> (lines 65-68).\<close>

datatype MenuState = Opened | Closed

text \<open>
  The three closures the components hand to \<open>nextTick\<close>:
  \<open>() => api.focus(Focus.First)\<close> (line 143),
  \<open>() => api.menuItemsRef.value?.focus()\<close> (line 188) and
  \<open>() => api.menuButtonRef.value?.focus()\<close> (lines 225, 237).
\<close>

datatype deferred = FocusFirst | FocusMenuItems | FocusMenuButton

text \<open>
  The state a \<open>Menu\<close> closes over (lines 73-78), with the part of the document that
  \<open>focus\<close> reads: \<open>activeElement\<close> is the value of the \<open>useActiveElement\<close> hook, the element
  holding input focus (none when the hook holds \<open>undefined\<close> or \<open>null\<close>);
  \<open>parentElement\<close> and \<open>children\<close> are the DOM properties of those names; \<open>ticks\<close> is the queue of
  callbacks passed to \<open>nextTick\<close> and not yet run.
\<close>

record menu =
  menuState :: MenuState
  menuItemsRef :: "element option"
  menuButtonRef :: "element option"
  activeElement :: "element option"
  parentElement :: "element \<Rightarrow> element option"
  children :: "element \<Rightarrow> element list"
  ticks :: "deferred list"

text \<open>
  The members of \<open>Keys\<close> (imported from \<open>~/types\<close>, line 34) that the handlers compare
  \<open>e.key\<close> with; the enumeration is a parameter of every handler.
\<close>

record Keys =
  Space :: string
  Enter :: string
  Escape :: string
  ArrowUp :: string
  ArrowDown :: string

text \<open>A keyboard or mouse event: its key and what the handlers set on it.\<close>

record event =
  key :: string
  defaultPrevented :: bool
  propagationStopped :: bool

definition preventDefault :: "event \<Rightarrow> event" where
  "preventDefault e = e\<lparr>defaultPrevented := True\<rparr>"

definition stopPropagation :: "event \<Rightarrow> event" where
  "stopPropagation e = e\<lparr>propagationStopped := True\<rparr>"

subsection \<open>Menu (lines 72-124)\<close>

text \<open>
  The state \<open>Menu\<close>'s setup creates: \<open>ref(MenuState.Closed)\<close>, two empty element refs and
  nothing scheduled. The document and the hook's value are what the page has.
\<close>

definition Menu :: "element option \<Rightarrow> (element \<Rightarrow> element option) \<Rightarrow> (element \<Rightarrow> element list) \<Rightarrow> menu" where
  "Menu active parent kids =
     \<lparr>menuState = Closed, menuItemsRef = None, menuButtonRef = None,
      activeElement = active, parentElement = parent, children = kids, ticks = []\<rparr>"

definition closeMenu :: "menu \<Rightarrow> menu" where
  "closeMenu s = s\<lparr>menuState := Closed\<rparr>"

definition openMenu :: "menu \<Rightarrow> menu" where
  "openMenu s = s\<lparr>menuState := Opened\<rparr>"

text \<open>\<open>nextTick(cb)\<close>: the callback joins the queue and runs after the next render pass.\<close>

definition nextTick :: "deferred \<Rightarrow> menu \<Rightarrow> menu" where
  "nextTick cb s = s\<lparr>ticks := ticks s @ [cb]\<rparr>"

text \<open>
  \<open>el.focus()\<close> on an element that can take focus, as the button and the items
  (\<open>tabindex={0}\<close>, line 244): the element becomes the one holding input focus.
\<close>

definition HTMLElement_focus :: "element \<Rightarrow> menu \<Rightarrow> menu" where
  "HTMLElement_focus el s = s\<lparr>activeElement := Some el\<rparr>"

text \<open>
  \<open>el.focus()\<close> on an element that cannot take focus, as the \<open>ul\<close> of the panel, which
  is rendered without a \<open>tabindex\<close> (line 207): the call returns and the focus stays
  where it is.
\<close>

definition HTMLElement_focus_inert :: "element \<Rightarrow> menu \<Rightarrow> menu" where
  "HTMLElement_focus_inert el s = s"

text \<open>
  \<open>collection[i]\<close> on an \<open>HTMLCollection\<close> taken as the list of its elements: \<open>undefined\<close>
  for an index that is negative or not below the length.
\<close>

definition item :: "element list \<Rightarrow> int \<Rightarrow> element option" where
  "item xs i = (if 0 \<le> i \<and> i < int (length xs) then Some (xs ! nat i) else None)"

text \<open>\<open>Array.prototype.indexOf\<close>: the first position of the element, or \<open>-1\<close>.\<close>

fun indexOf :: "element list \<Rightarrow> element \<Rightarrow> int" where
  "indexOf [] x = -1"
| "indexOf (y # ys) x = (if y = x then 0 else (let i = indexOf ys x in if i < 0 then -1 else i + 1))"

text \<open>
  \<open>[...activeElement.value?.parentElement?.children]\<close> (lines 101, 104): the optional
  chain is \<open>undefined\<close> when no element is active or the active element has no parent, and
  spreading \<open>undefined\<close> into an array raises a \<open>TypeError\<close>.
\<close>

definition siblings :: "menu \<Rightarrow> js_error + element \<times> element list" where
  "siblings s =
     (case activeElement s of
        None \<Rightarrow> Inl TypeError
      | Some a \<Rightarrow>
          (case parentElement s a of
             None \<Rightarrow> Inl TypeError
           | Some p \<Rightarrow> Inr (a, children s p)))"

text \<open>
  \<open>focus\<close> (lines 88-110). The \<open>default\<close> branch is the equation for \<open>Index\<close>; in the
  \<open>Previous\<close> and \<open>Next\<close> branches \<open>indexOf\<close> is only reached once the spread has
  succeeded, with the active element \<open>a\<close> and the children \<open>xs\<close> of its parent. A named target re-enters \<open>focus\<close> once,
  with a number.
\<close>

function focus :: "focus_arg \<Rightarrow> menu \<Rightarrow> js_error + menu" where
  "focus (Index i) s =
     (case menuItemsRef s of
        None \<Rightarrow> Inr s
      | Some ul \<Rightarrow>
          (case item (children s ul) i of
             None \<Rightarrow> Inr s
           | Some el \<Rightarrow> Inr (HTMLElement_focus el s)))"
| "focus (Named First) s = focus (Index 0) s"
| "focus (Named Last) s =
     (case menuItemsRef s of
        None \<Rightarrow> Inr s
      | Some ul \<Rightarrow>
          (case item (children s ul) (int (length (children s ul)) - 1) of
             None \<Rightarrow> Inr s
           | Some el \<Rightarrow> Inr (HTMLElement_focus el s)))"
| "focus (Named Previous) s =
     (case siblings s of
        Inl err \<Rightarrow> Inl err
      | Inr (a, xs) \<Rightarrow> focus (Index (indexOf xs a - 1)) s)"
| "focus (Named Next) s =
     (case siblings s of
        Inl err \<Rightarrow> Inl err
      | Inr (a, xs) \<Rightarrow> focus (Index (indexOf xs a + 1)) s)"
  by pat_completeness auto
termination
  by (relation "measure (\<lambda>(t, s). case t of Named f \<Rightarrow> 1 | Index i \<Rightarrow> 0)") auto

subsection \<open>useMenuContext (lines 57-63)\<close>

text \<open>
  \<open>inject(MenuContext)\<close> is the state of the enclosing \<open>Menu\<close>, or \<open>undefined\<close> when
  there is none.
\<close>

definition useMenuContext :: "string \<Rightarrow> menu option \<Rightarrow> js_error + menu" where
  "useMenuContext component ctx =
     (case ctx of
        None \<Rightarrow> Inl (Error (''<'' @ component @ ''> is missing a parent <Menu /> component.''))
      | Some api \<Rightarrow> Inr api)"

subsection \<open>MenuButton (lines 128-175)\<close>

definition MenuButton_handleKeyDown :: "Keys \<Rightarrow> event \<Rightarrow> menu \<Rightarrow> event \<times> menu" where
  "MenuButton_handleKeyDown K e s =
     (if key e = Space K \<or> key e = Enter K \<or> key e = ArrowDown K \<or> key e = ArrowUp K
      then (stopPropagation (preventDefault e), nextTick FocusFirst (openMenu s))
      else (e, s))"

definition MenuButton_handleKeyUp :: "Keys \<Rightarrow> event \<Rightarrow> event" where
  "MenuButton_handleKeyUp K e = (if key e = Space K then preventDefault e else e)"

definition MenuButton_handleClick :: "menu \<Rightarrow> menu" where
  "MenuButton_handleClick s = (if menuState s = Opened then closeMenu s else openMenu s)"

subsection \<open>What the components render\<close>

text \<open>
  A render function returns a tree of tags; a tag carries its name, the ref it is bound
  to (\<open>ref={api.menuItemsRef}\<close>, \<open>ref={api.menuButtonRef}\<close>) and its children. The
  content a parent passes in (\<open>slots.default()\<close>) is a parameter; an absent slot renders
  no child. Classes and listeners are not part of the tree.
\<close>

datatype ref_cell = MenuItemsRef | MenuButtonRef

datatype 'c vnode = Tag string "ref_cell option" "'c vnode list" | Content 'c

definition slot :: "'c option \<Rightarrow> 'c vnode list" where
  "slot c = (case c of None \<Rightarrow> [] | Some x \<Rightarrow> [Content x])"

definition MenuButton_render :: "'c option \<Rightarrow> 'c vnode" where
  "MenuButton_render c = Tag ''button'' (Some MenuButtonRef) (slot c)"

subsection \<open>MenuItems (lines 177-214)\<close>

text \<open>
  The handler sets the event's flags before it calls \<open>api.focus\<close>, so the event is
  returned as the handler left it also when \<open>focus\<close> raises.
\<close>

definition MenuItems_handleKeyDown :: "Keys \<Rightarrow> event \<Rightarrow> menu \<Rightarrow> event \<times> (js_error + menu)" where
  "MenuItems_handleKeyDown K e s =
     (if key e = Escape K
      then (stopPropagation (preventDefault e), Inr (nextTick FocusMenuItems (closeMenu s)))
      else if key e = ArrowUp K
      then (stopPropagation (preventDefault e), focus (Named Previous) s)
      else if key e = ArrowDown K
      then (stopPropagation (preventDefault e), focus (Named Next) s)
      else (e, Inr s))"

text \<open>The render function (lines 203-213): a tree when the menu is opened, nothing otherwise.\<close>

definition MenuItems_render :: "'c option \<Rightarrow> menu \<Rightarrow> 'c vnode option" where
  "MenuItems_render c s =
     (if menuState s = Opened
      then Some (Tag ''div'' None [Tag ''ul'' (Some MenuItemsRef) (slot c)])
      else None)"

subsection \<open>MenuItem (lines 218-252)\<close>

definition MenuItem_handleClick :: "menu \<Rightarrow> menu" where
  "MenuItem_handleClick s = nextTick FocusMenuButton (closeMenu s)"

definition MenuItem_handleKeyDown :: "Keys \<Rightarrow> event \<Rightarrow> menu \<Rightarrow> event \<times> menu" where
  "MenuItem_handleKeyDown K e s =
     (if key e = Enter K \<or> key e = Space K
      then (stopPropagation (preventDefault e), nextTick FocusMenuButton (closeMenu s))
      else (e, s))"

definition MenuItem_render :: "'c option \<Rightarrow> 'c vnode" where
  "MenuItem_render c = Tag ''li'' None (slot c)"

subsection \<open>Mounting\<close>

text \<open>
  A component's setup runs \<open>useMenuContext\<close> first (lines 129, 178, 219) and returns the
  render function only afterwards: mounting either raises or yields the first rendering.
\<close>

definition mount_MenuButton :: "menu option \<Rightarrow> 'c option \<Rightarrow> js_error + 'c vnode" where
  "mount_MenuButton ctx c =
     (case useMenuContext ''MenuButton'' ctx of
        Inl err \<Rightarrow> Inl err
      | Inr api \<Rightarrow> Inr (MenuButton_render c))"

definition mount_MenuItems :: "menu option \<Rightarrow> 'c option \<Rightarrow> js_error + 'c vnode option" where
  "mount_MenuItems ctx c =
     (case useMenuContext ''MenuItems'' ctx of
        Inl err \<Rightarrow> Inl err
      | Inr api \<Rightarrow> Inr (MenuItems_render c api))"

definition mount_MenuItem :: "menu option \<Rightarrow> 'c option \<Rightarrow> js_error + 'c vnode" where
  "mount_MenuItem ctx c =
     (case useMenuContext ''MenuItem'' ctx of
        Inl err \<Rightarrow> Inl err
      | Inr api \<Rightarrow> Inr (MenuItem_render c))"

subsection \<open>The render pass and the callbacks deferred to it\<close>

text \<open>
  What is mounted inside the \<open>Menu\<close>: the \<open>button\<close> element of its \<open>MenuButton\<close> and the
  \<open>ul\<close> element its \<open>MenuItems\<close> gets when it renders one (none when the component is
  not there). Removing the \<open>ul\<close> from the document also takes the input focus off an
  element inside it; the model leaves \<open>activeElement\<close> to the callbacks.
\<close>

record mounted =
  button_el :: "element option"
  ul_el :: "element option"

text \<open>
  A render pass binds each ref to the element rendered with it and clears the ref of an
  element that is no longer rendered: \<open>menuButtonRef\<close> follows the button, which
  \<open>MenuButton\<close> always renders, and \<open>menuItemsRef\<close> follows the \<open>ul\<close>, which exists
  exactly when \<open>MenuItems\<close>'s render function returns a tree. The binding is the work of
  the framework (Vue's \<open>ref\<close> attribute), as is the order in which \<open>nextTick\<close> runs its
  callbacks: after the pass that a state change has queued.
\<close>

definition render :: "mounted \<Rightarrow> menu \<Rightarrow> menu" where
  "render t s =
     s\<lparr>menuButtonRef := button_el t,
       menuItemsRef := (case MenuItems_render (None :: unit option) s of
                          None \<Rightarrow> None
                        | Some v \<Rightarrow> ul_el t)\<rparr>"

fun run :: "deferred \<Rightarrow> menu \<Rightarrow> js_error + menu" where
  "run FocusFirst s = focus (Named First) s"
| "run FocusMenuItems s =
     (case menuItemsRef s of None \<Rightarrow> Inr s | Some el \<Rightarrow> Inr (HTMLElement_focus_inert el s))"
| "run FocusMenuButton s =
     (case menuButtonRef s of None \<Rightarrow> Inr s | Some el \<Rightarrow> Inr (HTMLElement_focus el s))"

text \<open>
  Each callback is a promise reaction of its own: one that raises leaves the state as
  it found it and the callbacks after it still run.
\<close>

definition runTick :: "deferred \<Rightarrow> menu \<Rightarrow> menu" where
  "runTick cb s = (case run cb s of Inl err \<Rightarrow> s | Inr s' \<Rightarrow> s')"

text \<open>The next render pass: the tree is rendered, then the queued callbacks run in order.\<close>

definition renderPass :: "mounted \<Rightarrow> menu \<Rightarrow> menu" where
  "renderPass t s = fold runTick (ticks s) (render t (s\<lparr>ticks := []\<rparr>))"

subsection \<open>The panel's items and a small page\<close>

text \<open>The items of the panel: the children of the element \<open>menuItemsRef\<close> holds.\<close>

definition menuItems :: "menu \<Rightarrow> element list" where
  "menuItems s = (case menuItemsRef s of None \<Rightarrow> [] | Some ul \<Rightarrow> children s ul)"

text \<open>
  The key names a browser reports in \<open>KeyboardEvent.key\<close>, as a value of \<open>Keys\<close>, and
  a page with one menu for the examples: element 0 is the \<open>div\<close> of the \<open>Menu\<close>, 1 the
  button, 2 the \<open>div\<close> of the panel, 3 its \<open>ul\<close>, 4 and 5 the two items; the \<open>Menu\<close> is
  mounted in the container 6, a child of the body 7, which follows the head 9 in the
  root element 8. The root element is the one element without a \<open>parentElement\<close>.
\<close>

definition keys :: Keys where
  "keys = \<lparr>Space = '' '', Enter = ''Enter'', Escape = ''Escape'',
           ArrowUp = ''ArrowUp'', ArrowDown = ''ArrowDown''\<rparr>"

definition keydown :: "string \<Rightarrow> event" where
  "keydown k = \<lparr>key = k, defaultPrevented = False, propagationStopped = False\<rparr>"

definition page_parent :: "element \<Rightarrow> element option" where
  "page_parent x =
     (if x = 1 then Some 0 else if x = 2 then Some 0 else if x = 3 then Some 2
      else if x = 4 then Some 3 else if x = 5 then Some 3 else if x = 0 then Some 6
      else if x = 6 then Some 7 else if x = 7 then Some 8 else if x = 9 then Some 8
      else None)"

definition page_children :: "element \<Rightarrow> element list" where
  "page_children x =
     (if x = 0 then [1, 2] else if x = 2 then [3] else if x = 3 then [4, 5]
      else if x = 6 then [0] else if x = 7 then [6] else if x = 8 then [9, 7] else [])"

definition page_mounted :: mounted where
  "page_mounted = \<lparr>button_el = Some 1, ul_el = Some 3\<rparr>"

definition opened_page :: "element option \<Rightarrow> menu" where
  "opened_page a =
     \<lparr>menuState = Opened, menuItemsRef = Some 3, menuButtonRef = Some 1,
      activeElement = a, parentElement = page_parent, children = page_children, ticks = []\<rparr>"

section \<open>The track card (TrackCard.tsx, lines 8-24)\<close>

text \<open>
  The fields of \<open>statsfm.Track\<close> that the card reads, and what the card passes on: the
  route parameter, the image's \<open>src\<close> and \<open>alt\<close>, the heading and the artists.
\<close>

record album =
  image' :: string

record 'a track =
  id' :: int
  name :: string
  albums :: "album list"
  artists :: "'a list"

record 'a card =
  to :: int
  src :: string
  alt :: string
  heading :: string
  artist_names :: "'a list"

text \<open>
  \<open>track.albums[0]\<close> is \<open>undefined\<close> for an empty array, and reading \<open>.image\<close> of
  \<open>undefined\<close> raises a \<open>TypeError\<close>.
\<close>

definition TrackCard :: "'a track \<Rightarrow> js_error + 'a card" where
  "TrackCard t =
     (case albums t of
        [] \<Rightarrow> Inl TypeError
      | a # rest \<Rightarrow>
          Inr \<lparr>to = id' t, src = image' a, alt = name t, heading = name t,
               artist_names = artists t\<rparr>)"

section \<open>The text area (Textarea)\<close>

text \<open>
  A JavaScript string is a sequence of 16-bit code units and \<open>.length\<close> counts them.
  The \<open>value\<close> and \<open>defaultValue\<close> props are a string, a number, an array of strings or
  absent. Numbers are the integers from \<open>-2^53\<close> to \<open>2^53 - 1\<close>, a 54-bit word read as
  signed: a JavaScript number holds each of them exactly and prints it in plain decimal.
\<close>

type_synonym js_string = "16 word list"

datatype prop_value = Undefined | Str js_string | Num "54 word" | Arr "js_string list"

text \<open>Truthiness: \<open>undefined\<close>, the empty string and zero are falsy, every array is truthy.\<close>

fun truthy :: "prop_value \<Rightarrow> bool" where
  "truthy Undefined = False"
| "truthy (Str s) = (s \<noteq> [])"
| "truthy (Num n) = (n \<noteq> 0)"
| "truthy (Arr xs) = True"

function digits :: "nat \<Rightarrow> js_string" where
  "digits n = (if n < 10 then [of_nat (48 + n)] else digits (n div 10) @ [of_nat (48 + n mod 10)])"
  by pat_completeness auto
termination
  by (relation "measure id") auto

declare digits.simps [simp del]

fun join :: "js_string list \<Rightarrow> js_string" where
  "join [] = []"
| "join [x] = x"
| "join (x # y # ys) = x @ [44] @ join (y # ys)"

text \<open>\<open>toString()\<close> of a value that is there.\<close>

fun toString :: "prop_value \<Rightarrow> js_string" where
  "toString (Str s) = s"
| "toString (Num n) =
     (if sint n < 0 then 45 # digits (nat (- sint n)) else digits (nat (sint n)))"
| "toString (Arr xs) = join xs"
| "toString Undefined = []"

text \<open>The initial count (lines 17-19): \<open>props.defaultValue?.toString().length ?? 0\<close>.\<close>

definition initialCount :: "prop_value \<Rightarrow> nat" where
  "initialCount dv = (case dv of Undefined \<Rightarrow> 0 | _ \<Rightarrow> length (toString dv))"

text \<open>
  The body of the effect (line 22), which React runs after the first rendering and
  after each rendering in which \<open>props.value\<close> changed.
\<close>

definition valueEffect :: "prop_value \<Rightarrow> nat \<Rightarrow> nat" where
  "valueEffect v characterCount =
     (if truthy v then length (toString v) else characterCount)"

definition handleInput :: "js_string \<Rightarrow> nat \<Rightarrow> nat" where
  "handleInput target_value characterCount = length target_value"

text \<open>
  The counter (lines 44-53), rendered when \<open>maxLength\<close> is truthy (a number other than
  zero): the two numbers shown and whether the count is styled as exceeded.
\<close>

definition counter :: "int option \<Rightarrow> nat \<Rightarrow> (nat \<times> int \<times> bool) option" where
  "counter maxLength characterCount =
     (case maxLength of
        None \<Rightarrow> None
      | Some m \<Rightarrow>
          if m = 0 then None else Some (characterCount, m, int characterCount > m))"

text \<open>
  The count after the component is mounted with a \<open>defaultValue\<close> and a \<open>value\<close>, and
  after \<open>props.value\<close> then takes each value of a list in turn.
\<close>

definition mountTextarea :: "prop_value \<Rightarrow> prop_value \<Rightarrow> nat" where
  "mountTextarea dv v = valueEffect v (initialCount dv)"

definition valueChanges :: "prop_value list \<Rightarrow> nat \<Rightarrow> nat" where
  "valueChanges vs characterCount = fold valueEffect vs characterCount"

section \<open>Properties of the menu\<close>

subsection \<open>The trigger\<close>

lemma handleClick_flips:
  "menuState (MenuButton_handleClick s) = (if menuState s = Opened then Closed else Opened)"
  by (simp add: MenuButton_handleClick_def closeMenu_def openMenu_def)

text \<open>
  C3. From the state \<open>Menu\<close> creates, which is Closed, the state after \<open>n\<close> pointer
  activations of the trigger is Closed for even \<open>n\<close> and Opened for odd \<open>n\<close>: the trace is
  Closed, Opened, Closed, Opened, ... A single activation turns Opened into Closed and
  Closed into Opened, from any state, so no state is terminal.
\<close>

theorem trigger_click_alternates:
  "menuState (Menu a p c) = Closed
   \<and> menuState ((MenuButton_handleClick ^^ n) (Menu a p c)) = (if even n then Closed else Opened)
   \<and> menuState (MenuButton_handleClick (s\<lparr>menuState := Opened\<rparr>)) = Closed
   \<and> menuState (MenuButton_handleClick (s\<lparr>menuState := Closed\<rparr>)) = Opened
   \<and> menuState (MenuButton_handleClick s) \<noteq> menuState s"
proof -
  have "menuState ((MenuButton_handleClick ^^ n) (Menu a p c)) = (if even n then Closed else Opened)"
    by (induction n) (simp_all add: Menu_def handleClick_flips)
  then show ?thesis
    by (simp add: Menu_def handleClick_flips)
qed

subsection \<open>The render pass\<close>

text \<open>A deferred callback changes nothing but the element that holds input focus.\<close>

lemma run_only_moves_focus: "run cb s = Inr s' \<Longrightarrow> \<exists>a. s' = s\<lparr>activeElement := a\<rparr>"
  by (cases cb)
    (auto simp: HTMLElement_focus_def HTMLElement_focus_inert_def split: option.splits
      intro: exI [of _ "activeElement s"])

lemma run_total: "\<exists>s'. run cb s = Inr s'"
  by (cases cb) (auto split: option.splits)

lemma runTick_only_moves_focus: "\<exists>a. runTick cb s = s\<lparr>activeElement := a\<rparr>"
proof (cases "run cb s")
  case (Inl err)
  then show ?thesis by (auto simp: runTick_def intro: exI [of _ "activeElement s"])
next
  case (Inr s')
  then show ?thesis using run_only_moves_focus [OF Inr] by (auto simp: runTick_def)
qed

lemma fold_runTick_only_moves_focus: "\<exists>a. fold runTick cbs s = s\<lparr>activeElement := a\<rparr>"
proof (induction cbs arbitrary: s)
  case Nil
  show ?case by (auto intro: exI [of _ "activeElement s"])
next
  case (Cons cb cbs)
  obtain a where a: "runTick cb s = s\<lparr>activeElement := a\<rparr>"
    using runTick_only_moves_focus by blast
  obtain b where
    "fold runTick cbs (s\<lparr>activeElement := a\<rparr>) = s\<lparr>activeElement := a\<rparr>\<lparr>activeElement := b\<rparr>"
    using Cons.IH by blast
  then show ?case using a by auto
qed

lemma renderPass_shape:
  "\<exists>a. renderPass t s = (render t (s\<lparr>ticks := []\<rparr>))\<lparr>activeElement := a\<rparr>"
  unfolding renderPass_def by (rule fold_runTick_only_moves_focus)

text \<open>The callback scheduled last runs last, on the state the earlier ones left.\<close>

lemma renderPass_snoc: "renderPass t (nextTick cb s) = runTick cb (renderPass t s)"
  by (simp add: renderPass_def nextTick_def render_def MenuItems_render_def)

lemma renderPass_menuState: "menuState (renderPass t s) = menuState s"
  using renderPass_shape [of t s] by (auto simp: render_def)

lemma renderPass_menuButtonRef: "menuButtonRef (renderPass t s) = button_el t"
  using renderPass_shape [of t s] by (auto simp: render_def)

lemma renderPass_menuItemsRef:
  "menuItemsRef (renderPass t s) = (if menuState s = Opened then ul_el t else None)"
  using renderPass_shape [of t s] by (auto simp: render_def MenuItems_render_def)

lemma closeMenu_idem: "menuState s = Closed \<Longrightarrow> closeMenu s = s"
  by (simp add: closeMenu_def)

subsection \<open>The trigger's keys\<close>

text \<open>
  C8. For a keydown of Enter, Space, ArrowDown or ArrowUp on the trigger (in any state,
  so also while the menu is closed) the handler prevents the default action and stops
  the propagation, sets the state to Opened and appends the request \<open>focus(First)\<close> to
  the callbacks of the next render pass. The element holding focus is the same when
  the handler returns: the request runs in the render pass, after the tree is rendered.
\<close>

theorem trigger_key_opens_and_defers_focus:
  assumes "key e = Enter K \<or> key e = Space K \<or> key e = ArrowDown K \<or> key e = ArrowUp K"
  shows "MenuButton_handleKeyDown K e s =
     (e\<lparr>defaultPrevented := True, propagationStopped := True\<rparr>,
      s\<lparr>menuState := Opened, ticks := ticks s @ [FocusFirst]\<rparr>)
   \<and> menuState (snd (MenuButton_handleKeyDown K e s)) = Opened
   \<and> activeElement (snd (MenuButton_handleKeyDown K e s)) = activeElement s
   \<and> run FocusFirst = focus (Named First)
   \<and> renderPass t (snd (MenuButton_handleKeyDown K e s))
       = runTick FocusFirst (renderPass t (openMenu s))"
proof -
  have h: "MenuButton_handleKeyDown K e s =
      (stopPropagation (preventDefault e), nextTick FocusFirst (openMenu s))"
    using assms by (auto simp: MenuButton_handleKeyDown_def)
  have "run FocusFirst = focus (Named First)"
    by (rule ext) simp
  then show ?thesis
    unfolding h renderPass_snoc snd_conv
    by (simp add: preventDefault_def stopPropagation_def nextTick_def openMenu_def)
qed

theorem trigger_key_opens_and_defers_focus_witness:
  "MenuButton_handleKeyDown keys (keydown ''Enter'') (Menu None page_parent page_children) =
     (\<lparr>key = ''Enter'', defaultPrevented = True, propagationStopped = True\<rparr>,
      (Menu None page_parent page_children)\<lparr>menuState := Opened, ticks := [FocusFirst]\<rparr>)
   \<and> MenuButton_handleKeyDown keys (keydown '' '') (Menu None page_parent page_children) =
     (\<lparr>key = '' '', defaultPrevented = True, propagationStopped = True\<rparr>,
      (Menu None page_parent page_children)\<lparr>menuState := Opened, ticks := [FocusFirst]\<rparr>)
   \<and> MenuButton_handleKeyDown keys (keydown ''ArrowDown'') (Menu None page_parent page_children) =
     (\<lparr>key = ''ArrowDown'', defaultPrevented = True, propagationStopped = True\<rparr>,
      (Menu None page_parent page_children)\<lparr>menuState := Opened, ticks := [FocusFirst]\<rparr>)
   \<and> MenuButton_handleKeyDown keys (keydown ''ArrowUp'') (Menu None page_parent page_children) =
     (\<lparr>key = ''ArrowUp'', defaultPrevented = True, propagationStopped = True\<rparr>,
      (Menu None page_parent page_children)\<lparr>menuState := Opened, ticks := [FocusFirst]\<rparr>)"
  using trigger_key_opens_and_defers_focus
      [of "keydown ''Enter''" keys "Menu None page_parent page_children" page_mounted]
    trigger_key_opens_and_defers_focus
      [of "keydown '' ''" keys "Menu None page_parent page_children" page_mounted]
    trigger_key_opens_and_defers_focus
      [of "keydown ''ArrowDown''" keys "Menu None page_parent page_children" page_mounted]
    trigger_key_opens_and_defers_focus
      [of "keydown ''ArrowUp''" keys "Menu None page_parent page_children" page_mounted]
  by (simp add: keys_def keydown_def Menu_def)

subsection \<open>focus\<close>

lemma item_out_of_range: "i < 0 \<or> int (length xs) \<le> i \<Longrightarrow> item xs i = None"
  by (auto simp: item_def)

lemma focus_Index_total: "\<exists>s'. focus (Index i) s = Inr s'"
  by (simp split: option.splits)

text \<open>
  \<open>focus\<close> raises exactly for \<open>Previous\<close> and \<open>Next\<close> when no element is active or
  the active element has no parent.
\<close>

lemma focus_raises_iff:
  "(\<exists>err. focus t s = Inl err) =
     ((t = Named Previous \<or> t = Named Next) \<and> siblings s = Inl TypeError)"
proof (cases t)
  case (Index i)
  then show ?thesis by (simp split: option.splits)
next
  case (Named f)
  then show ?thesis
    by (cases f) (auto simp: siblings_def split: option.splits sum.splits)
qed

text \<open>
  C1. \<open>focus(Previous)\<close> and \<open>focus(Next)\<close> raise a \<open>TypeError\<close> when no element
  holds input focus (in the state a \<open>Menu\<close> starts with, and in the opened example page)
  and when the focused element has no parent (the root element 8 of the page, or any
  element of a document without parents): the optional chain yields \<open>undefined\<close> and the spread of it
  raises.
\<close>

theorem focus_previous_next_raise:
  "focus (Named Previous) (Menu None p c) = Inl TypeError
   \<and> focus (Named Next) (Menu None p c) = Inl TypeError
   \<and> focus (Named Previous) (Menu (Some a) (\<lambda>x. None) c) = Inl TypeError
   \<and> focus (Named Next) (Menu (Some a) (\<lambda>x. None) c) = Inl TypeError
   \<and> focus (Named Previous) (opened_page None) = Inl TypeError
   \<and> focus (Named Next) (opened_page (Some 8)) = Inl TypeError"
  by (simp add: siblings_def Menu_def opened_page_def page_parent_def)

text \<open>
  C4. An index outside the range of the panel's items focuses nothing and raises
  nothing: \<open>focus\<close> returns the state as it was. So does \<open>focus(Previous)\<close> when the
  focused element is the first child of its parent (the index is \<open>-1\<close>, with no wrap to
  the last item), \<open>focus(Next)\<close> when the focused element's position is that of the last
  item (the index is the number of items), and \<open>focus(First)\<close> and \<open>focus(Last)\<close> on a
  panel with no items.
\<close>

theorem focus_out_of_range_is_noop:
  "(i < 0 \<or> int (length (menuItems s)) \<le> i \<longrightarrow> focus (Index i) s = Inr s)
   \<and> (activeElement s = Some a \<and> parentElement s a = Some p \<and> indexOf (children s p) a = 0
        \<longrightarrow> focus (Named Previous) s = Inr s)
   \<and> (activeElement s = Some a \<and> parentElement s a = Some p
        \<and> indexOf (children s p) a = int (length (menuItems s)) - 1
        \<longrightarrow> focus (Named Next) s = Inr s)
   \<and> (menuItems s = [] \<longrightarrow> focus (Named First) s = Inr s \<and> focus (Named Last) s = Inr s)"
  by (auto simp: menuItems_def item_def siblings_def split: option.splits)

theorem focus_out_of_range_is_noop_witness:
  "focus (Index (- 1)) (opened_page (Some 4)) = Inr (opened_page (Some 4))
   \<and> focus (Index 2) (opened_page (Some 4)) = Inr (opened_page (Some 4))
   \<and> focus (Named Previous) (opened_page (Some 4)) = Inr (opened_page (Some 4))
   \<and> focus (Named Next) (opened_page (Some 5)) = Inr (opened_page (Some 5))
   \<and> focus (Named First) (Menu None page_parent page_children)
       = Inr (Menu None page_parent page_children)
   \<and> focus (Named First) ((opened_page None)\<lparr>children := \<lambda>x. []\<rparr>)
       = Inr ((opened_page None)\<lparr>children := \<lambda>x. []\<rparr>)"
  using focus_out_of_range_is_noop [of "- 1" "opened_page (Some 4)" 4 3]
    focus_out_of_range_is_noop [of 2 "opened_page (Some 4)" 4 3]
    focus_out_of_range_is_noop [of 0 "opened_page (Some 5)" 5 3]
    focus_out_of_range_is_noop [of 0 "Menu None page_parent page_children" 0 0]
    focus_out_of_range_is_noop [of 0 "(opened_page None)\<lparr>children := \<lambda>x. []\<rparr>" 0 0]
  by (simp add: menuItems_def opened_page_def page_parent_def page_children_def Menu_def)

subsection \<open>The panel\<close>

text \<open>
  C2. The panel's render function returns nothing exactly when the menu is Closed, and
  exactly when it is Opened it returns the tree with the list and the items passed in:
  after \<open>closeMenu\<close> the panel is absent, after \<open>openMenu\<close> it is there. For items \<open>x\<close>
  passed in, the list of the opened panel holds \<open>x\<close> as its one child, and the tree
  with \<open>x\<close> in the list is the output exactly when the menu is Opened; a panel given no
  items renders an empty list.
\<close>

theorem panel_rendered_iff_opened:
  "(MenuItems_render c s = None) = (menuState s = Closed)
   \<and> (MenuItems_render c s = Some (Tag ''div'' None [Tag ''ul'' (Some MenuItemsRef) (slot c)]))
       = (menuState s = Opened)
   \<and> MenuItems_render c (closeMenu s) = None
   \<and> MenuItems_render c (openMenu s)
       = Some (Tag ''div'' None [Tag ''ul'' (Some MenuItemsRef) (slot c)])
   \<and> (MenuItems_render (Some x) s
        = Some (Tag ''div'' None [Tag ''ul'' (Some MenuItemsRef) [Content x]]))
       = (menuState s = Opened)
   \<and> MenuItems_render (Some x) (openMenu s)
       = Some (Tag ''div'' None [Tag ''ul'' (Some MenuItemsRef) [Content x]])
   \<and> MenuItems_render (Some x) (closeMenu s) = None
   \<and> MenuItems_render (None :: 'a option) (openMenu s)
       = Some (Tag ''div'' None [Tag ''ul'' (Some MenuItemsRef) []])
   \<and> slot (Some x) = [Content x]"
  by (cases "menuState s")
    (simp_all add: MenuItems_render_def closeMenu_def openMenu_def slot_def)

text \<open>
  Escape closes the menu, and the deferred callback finds \<open>menuItemsRef\<close> cleared by the
  render pass, the panel of a closed menu being absent: it focuses nothing. Nor would it
  with the ref still bound, the list not being an element that takes focus.
\<close>

lemma FocusMenuItems_moves_nothing: "run FocusMenuItems s = Inr s"
  by (simp add: HTMLElement_focus_inert_def split: option.splits)

lemma escape_never_focuses:
  assumes "key e = Escape K" and "ticks s = []"
  shows "MenuItems_handleKeyDown K e s
           = (stopPropagation (preventDefault e), Inr (nextTick FocusMenuItems (closeMenu s)))"
    and "renderPass t (nextTick FocusMenuItems (closeMenu s))
           = s\<lparr>menuState := Closed, menuButtonRef := button_el t, menuItemsRef := None\<rparr>"
  using assms
  by (simp_all add: MenuItems_handleKeyDown_def renderPass_def nextTick_def closeMenu_def
      render_def MenuItems_render_def runTick_def)

text \<open>
  C5. On the example page, opened, with the first item focused, Escape on the panel
  sets the state to Closed and schedules the focus of \<open>menuItemsRef\<close>; in the render pass
  that follows the ref is cleared before the callback runs, so the state is Closed and
  the panel's list (element 3) does not hold input focus.
\<close>

theorem escape_leaves_panel_unfocused:
  "MenuItems_handleKeyDown keys (keydown ''Escape'') (opened_page (Some 4))
     = (\<lparr>key = ''Escape'', defaultPrevented = True, propagationStopped = True\<rparr>,
        Inr ((opened_page (Some 4))\<lparr>menuState := Closed, ticks := [FocusMenuItems]\<rparr>))
   \<and> renderPass page_mounted
        ((opened_page (Some 4))\<lparr>menuState := Closed, ticks := [FocusMenuItems]\<rparr>)
     = (opened_page (Some 4))\<lparr>menuState := Closed, menuItemsRef := None\<rparr>
   \<and> menuItemsRef (opened_page (Some 4)) = Some 3
   \<and> activeElement (renderPass page_mounted
        ((opened_page (Some 4))\<lparr>menuState := Closed, ticks := [FocusMenuItems]\<rparr>)) \<noteq> Some 3"
  by (simp add: MenuItems_handleKeyDown_def keys_def keydown_def opened_page_def
      preventDefault_def stopPropagation_def nextTick_def closeMenu_def renderPass_def
      render_def MenuItems_render_def runTick_def page_mounted_def)

subsection \<open>Mounting outside a Menu\<close>

lemma mount_outside_Menu_raises:
  "mount_MenuButton None c = Inl (Error ''<MenuButton> is missing a parent <Menu /> component.'')"
  "mount_MenuItems None c = Inl (Error ''<MenuItems> is missing a parent <Menu /> component.'')"
  "mount_MenuItem None c = Inl (Error ''<MenuItem> is missing a parent <Menu /> component.'')"
  by (simp_all add: mount_MenuButton_def mount_MenuItems_def mount_MenuItem_def useMenuContext_def)

lemma mount_inside_Menu_renders:
  "mount_MenuButton (Some s) c = Inr (MenuButton_render c)"
  "mount_MenuItems (Some s) c = Inr (MenuItems_render c s)"
  "mount_MenuItem (Some s) c = Inr (MenuItem_render c)"
  by (simp_all add: mount_MenuButton_def mount_MenuItems_def mount_MenuItem_def useMenuContext_def)

text \<open>
  C7. A panel mounted inside a \<open>Menu\<close> (its mounting returns the rendered tree) still
  raises: with no element holding input focus, ArrowUp and ArrowDown on the panel end in
  a \<open>TypeError\<close>, after the handler has set the event's flags. Mounting outside a
  \<open>Menu\<close> is therefore not the only operation of the widget that raises.
\<close>

theorem arrow_key_in_mounted_panel_raises:
  "mount_MenuItems (Some (opened_page None)) c
     = Inr (Some (Tag ''div'' None [Tag ''ul'' (Some MenuItemsRef) (slot c)]))
   \<and> MenuItems_handleKeyDown keys (keydown ''ArrowUp'') (opened_page None)
     = (\<lparr>key = ''ArrowUp'', defaultPrevented = True, propagationStopped = True\<rparr>, Inl TypeError)
   \<and> MenuItems_handleKeyDown keys (keydown ''ArrowDown'') (opened_page None)
     = (\<lparr>key = ''ArrowDown'', defaultPrevented = True, propagationStopped = True\<rparr>, Inl TypeError)"
  by (simp add: mount_MenuItems_def useMenuContext_def MenuItems_render_def
      MenuItems_handleKeyDown_def keys_def keydown_def opened_page_def siblings_def
      preventDefault_def stopPropagation_def)

subsection \<open>The items\<close>

text \<open>
  C6. A click on an item, and Enter or Space on it, set the state to Closed whatever it
  was (closing a closed menu changes nothing) and schedule the focus of the trigger. The
  focus is where it was when the handler returns; after the next render pass, with the
  trigger's button \<open>b\<close> mounted, \<open>b\<close> holds the input focus and the state is Closed.
\<close>

theorem item_activation_closes_and_returns_focus:
  "MenuItem_handleClick s = s\<lparr>menuState := Closed, ticks := ticks s @ [FocusMenuButton]\<rparr>
   \<and> (key e = Enter K \<or> key e = Space K \<longrightarrow>
        MenuItem_handleKeyDown K e s =
          (e\<lparr>defaultPrevented := True, propagationStopped := True\<rparr>, MenuItem_handleClick s))
   \<and> menuState (MenuItem_handleClick s) = Closed
   \<and> (menuState s = Closed \<longrightarrow> closeMenu s = s)
   \<and> activeElement (MenuItem_handleClick s) = activeElement s
   \<and> (button_el t = Some b \<longrightarrow>
        activeElement (renderPass t (MenuItem_handleClick s)) = Some b
        \<and> menuState (renderPass t (MenuItem_handleClick s)) = Closed)"
proof -
  have click: "MenuItem_handleClick s = s\<lparr>menuState := Closed, ticks := ticks s @ [FocusMenuButton]\<rparr>"
    by (simp add: MenuItem_handleClick_def nextTick_def closeMenu_def)
  have keyd: "key e = Enter K \<or> key e = Space K \<Longrightarrow>
        MenuItem_handleKeyDown K e s =
          (e\<lparr>defaultPrevented := True, propagationStopped := True\<rparr>, MenuItem_handleClick s)"
    by (auto simp: MenuItem_handleKeyDown_def MenuItem_handleClick_def preventDefault_def
        stopPropagation_def)
  have later: "activeElement (renderPass t (MenuItem_handleClick s)) = Some b
        \<and> menuState (renderPass t (MenuItem_handleClick s)) = Closed" if b: "button_el t = Some b"
  proof -
    have "renderPass t (MenuItem_handleClick s)
            = runTick FocusMenuButton (renderPass t (closeMenu s))"
      by (simp add: MenuItem_handleClick_def renderPass_snoc)
    moreover have "menuButtonRef (renderPass t (closeMenu s)) = Some b"
      by (simp add: renderPass_menuButtonRef b)
    moreover have "menuState (renderPass t (closeMenu s)) = Closed"
      by (simp add: renderPass_menuState closeMenu_def)
    ultimately show ?thesis
      by (simp add: runTick_def HTMLElement_focus_def)
  qed
  show ?thesis
    using click keyd later by (simp add: closeMenu_idem)
qed

theorem item_activation_closes_and_returns_focus_witness:
  "MenuItem_handleKeyDown keys (keydown ''Enter'') (opened_page (Some 4)) =
     (\<lparr>key = ''Enter'', defaultPrevented = True, propagationStopped = True\<rparr>,
      MenuItem_handleClick (opened_page (Some 4)))
   \<and> MenuItem_handleKeyDown keys (keydown '' '') (opened_page (Some 4)) =
     (\<lparr>key = '' '', defaultPrevented = True, propagationStopped = True\<rparr>,
      MenuItem_handleClick (opened_page (Some 4)))
   \<and> closeMenu (Menu None page_parent page_children) = Menu None page_parent page_children
   \<and> activeElement (renderPass page_mounted (MenuItem_handleClick (opened_page (Some 4)))) = Some 1
   \<and> menuState (renderPass page_mounted (MenuItem_handleClick (opened_page (Some 4)))) = Closed"
  using item_activation_closes_and_returns_focus
      [of "opened_page (Some 4)" "keydown ''Enter''" keys page_mounted 1]
    item_activation_closes_and_returns_focus
      [of "opened_page (Some 4)" "keydown '' ''" keys page_mounted 1]
    item_activation_closes_and_returns_focus
      [of "Menu None page_parent page_children" "keydown '' ''" keys page_mounted 1]
  by (simp add: keys_def keydown_def page_mounted_def Menu_def)

section \<open>Properties of the track card\<close>

text \<open>
  C10. The card reads the image of the first album with no guard: for a track with no
  albums rendering raises a \<open>TypeError\<close>, and it yields a card, with the first album's
  image, exactly when the track has at least one album.
\<close>

theorem TrackCard_needs_an_album:
  "(albums t = [] \<longrightarrow> TrackCard t = Inl TypeError)
   \<and> (albums t \<noteq> [] \<longrightarrow>
        TrackCard t = Inr \<lparr>to = id' t, src = image' (hd (albums t)), alt = name t,
                           heading = name t, artist_names = artists t\<rparr>)
   \<and> (\<exists>c. TrackCard t = Inr c) = (albums t \<noteq> [])"
  by (cases "albums t") (simp_all add: TrackCard_def)

theorem TrackCard_needs_an_album_witness:
  "TrackCard \<lparr>id' = 7, name = ''Song'', albums = [], artists = [''A'']\<rparr> = Inl TypeError
   \<and> TrackCard \<lparr>id' = 7, name = ''Song'', albums = [\<lparr>image' = ''cover.png''\<rparr>], artists = [''A'']\<rparr>
       = Inr \<lparr>to = 7, src = ''cover.png'', alt = ''Song'', heading = ''Song'', artist_names = [''A'']\<rparr>"
  using TrackCard_needs_an_album [of "\<lparr>id' = 7, name = ''Song'', albums = [], artists = [''A'']\<rparr>"]
    TrackCard_needs_an_album
      [of "\<lparr>id' = 7, name = ''Song'', albums = [\<lparr>image' = ''cover.png''\<rparr>], artists = [''A'']\<rparr>"]
  by simp

section \<open>Properties of the text area\<close>

lemma valueChanges_snoc: "valueChanges (vs @ [v]) n = valueEffect v (valueChanges vs n)"
  by (simp add: valueChanges_def)

text \<open>
  C9. The effect sets the count only for a truthy value: when \<open>props.value\<close> becomes
  falsy (the empty string, \<open>undefined\<close>, zero) the count stays what it was, and so does
  the counter shown. After the value goes from a non-empty string to the empty string
  the count is still the length of the old string, which is more than the length of the
  value.
\<close>

theorem falsy_value_keeps_count:
  "(\<not> truthy v \<longrightarrow> valueEffect v n = n)
   \<and> valueEffect (Str []) n = n \<and> valueEffect Undefined n = n \<and> valueEffect (Num 0) n = n
   \<and> (truthy v \<longrightarrow> valueEffect v n = length (toString v))
   \<and> (\<not> truthy v \<longrightarrow> counter m (valueChanges (vs @ [v]) n) = counter m (valueChanges vs n))
   \<and> (x \<noteq> [] \<longrightarrow> valueChanges [Str x, Str []] n = length x
                    \<and> length (toString (Str [])) < valueChanges [Str x, Str []] n)"
  by (simp add: valueEffect_def valueChanges_def)

theorem falsy_value_keeps_count_witness:
  "valueEffect (Str []) 3 = 3
   \<and> valueEffect (Str [104, 105]) 3 = 2
   \<and> counter (Some 10) (valueChanges ([Str [104, 105]] @ [Str []]) 0) = Some (2, 10, False)
   \<and> valueChanges [Str [104, 105], Str []] 0 = 2
   \<and> mountTextarea Undefined (Str []) = 0"
  using falsy_value_keeps_count [of "Str []" 3 "Some 10" "[Str [104, 105]]" "[104, 105]"]
    falsy_value_keeps_count [of "Str [104, 105]" 3 "Some 10" "[]" "[104, 105]"]
    falsy_value_keeps_count [of "Str []" 0 "Some 10" "[Str [104, 105]]" "[104, 105]"]
  by (simp add: valueEffect_def valueChanges_def counter_def mountTextarea_def initialCount_def)

end
